theory Spec2Isabelle
  imports Complex_Main "HOL-Library.Sublist"
begin

section \<open>Numbers, strings and exceptions\<close>

text \<open>
  Prices, averages and ratios are Python floats. They are modelled as \<open>fl\<close>: either
  \<open>NaN\<close> or a finite value, a rational number on which arithmetic is exact (rounding
  and infinities are not modelled). Every comparison with \<open>NaN\<close> is false, as in Python.
  Share volumes of \<open>Ticker.history\<close> are the provider's integer column, a \<open>nat\<close>.
  Scores are Python ints, an \<open>int\<close>. Strings are lists of (8-bit) characters.
\<close>

datatype fl = NaN | Fin rat

fun fl_lt :: "fl \<Rightarrow> fl \<Rightarrow> bool" where
  "fl_lt (Fin a) (Fin b) = (a < b)"
| "fl_lt _ _ = False"

definition fl_gt :: "fl \<Rightarrow> fl \<Rightarrow> bool" where
  "fl_gt x y = fl_lt y x"

fun fl_ge :: "fl \<Rightarrow> fl \<Rightarrow> bool" where
  "fl_ge (Fin a) (Fin b) = (b \<le> a)"
| "fl_ge _ _ = False"

fun fl_mul :: "fl \<Rightarrow> fl \<Rightarrow> fl" where
  "fl_mul (Fin a) (Fin b) = Fin (a * b)"
| "fl_mul _ _ = NaN"

fun fl_sub :: "fl \<Rightarrow> fl \<Rightarrow> fl" where
  "fl_sub (Fin a) (Fin b) = Fin (a - b)"
| "fl_sub _ _ = NaN"

fun fl_abs :: "fl \<Rightarrow> fl" where
  "fl_abs (Fin a) = Fin \<bar>a\<bar>"
| "fl_abs NaN = NaN"

text \<open>\<open>pd.isna\<close> on a scalar.\<close>

fun isna :: "fl \<Rightarrow> bool" where
  "isna NaN = True"
| "isna (Fin _) = False"

text \<open>A Python exception, with the text \<open>str(e)\<close> gives.\<close>

datatype error = Exception string

fun str_error :: "error \<Rightarrow> string" where
  "str_error (Exception m) = m"

text \<open>
  The number formats of f-strings are Python builtins, not code of this repository: they
  are parameters of the model. \<open>fmt2f x\<close> is \<open>f"{x:.2f}"\<close>, \<open>fmtstr x\<close> is \<open>f"{x}"\<close>.
\<close>

record pyfmt =
  fmt2f :: "fl \<Rightarrow> string"
  fmtstr :: "fl \<Rightarrow> string"

text \<open>\<open>str\<close> of a Python int, in decimal.\<close>

definition digit_char :: "nat \<Rightarrow> char" where
  "digit_char d = char_of (48 + d)"

fun str_nat :: "nat \<Rightarrow> string" where
  "str_nat n = (if n < 10 then [digit_char n] else str_nat (n div 10) @ [digit_char (n mod 10)])"

declare str_nat.simps [simp del]

definition str_int :: "int \<Rightarrow> string" where
  "str_int i = (if i < 0 then CHR ''-'' # str_nat (nat (- i)) else str_nat (nat i))"

text \<open>\<open>sep.join(xs)\<close>.\<close>

fun join :: "string \<Rightarrow> string list \<Rightarrow> string" where
  "join sep [] = []"
| "join sep [x] = x"
| "join sep (x # y # ys) = x @ sep @ join sep (y # ys)"

text \<open>\<open>str.lower\<close> on ASCII letters; other characters are left as they are.\<close>

definition lower_char :: "char \<Rightarrow> char" where
  "lower_char c = (let n = (of_char c :: nat) in if 65 \<le> n \<and> n \<le> 90 then char_of (n + 32) else c)"

definition lower :: "string \<Rightarrow> string" where
  "lower s = map lower_char s"

text \<open>
  A value read from a provider dictionary with \<open>d.get(key, '')\<close> and then used as
  a string: the key is absent, or holds a string, or holds something else (None, a number),
  on which a string method raises AttributeError.
\<close>

datatype keyval = Absent | Str string | NonStr

fun get_lower :: "keyval \<Rightarrow> error + string" where
  "get_lower Absent = Inr (lower [])"
| "get_lower (Str s) = Inr (lower s)"
| "get_lower NonStr = Inl (Exception ''AttributeError: lower'')"

section \<open>Deep scorer: news sentiment (\<open>SniperScorer._analyze_sentiment\<close>)\<close>

definition positive_keywords :: "string list" where
  "positive_keywords =
     [''upgrade'', ''buy'', ''surge'', ''jump'', ''growth'', ''beat'', ''record'', ''bull'']"

definition negative_keywords :: "string list" where
  "negative_keywords =
     [''downgrade'', ''sell'', ''drop'', ''miss'', ''loss'', ''lawsuit'', ''crash'']"

text \<open>
  The inner loops \<open>for keyword in keywords: if keyword in title: ...; break\<close>: the result
  is the adjustment of the first keyword found, 0 when the loop ends without a match.
\<close>

fun keyword_loop :: "string list \<Rightarrow> string \<Rightarrow> int \<Rightarrow> int" where
  "keyword_loop [] title delta = 0"
| "keyword_loop (keyword # rest) title delta =
     (if sublist keyword title then delta else keyword_loop rest title delta)"

definition headline_score :: "string \<Rightarrow> int" where
  "headline_score title =
     keyword_loop positive_keywords title 10 + keyword_loop negative_keywords title (- 20)"

text \<open>
  The loop over \<open>news[:3]\<close>, with the running \<open>sentiment_score\<close>. An item is given by
  its \<open>title\<close> entry; a title that is no string raises inside the loop.
\<close>

fun news_loop :: "keyval list \<Rightarrow> int \<Rightarrow> error + int" where
  "news_loop [] sentiment_score = Inr sentiment_score"
| "news_loop (item # items) sentiment_score =
     (case get_lower item of
        Inl e \<Rightarrow> Inl e
      | Inr title \<Rightarrow> news_loop items (sentiment_score + headline_score title))"

text \<open>
  \<open>stock.news\<close> either raises or gives the list of items, most recent first. The
  \<open>try\<close> block returns 0 on an empty list, and the handler returns 0 on any exception.
\<close>

definition analyze_sentiment :: "error + keyval list \<Rightarrow> int" where
  "analyze_sentiment news_response =
     (case news_response of
        Inl e \<Rightarrow> 0
      | Inr news \<Rightarrow>
          if news = [] then 0
          else (case news_loop (take 3 news) 0 of Inl e \<Rightarrow> 0 | Inr s \<Rightarrow> s))"

section \<open>Deep scorer: technical factors (\<open>SniperScorer.analyze_stock\<close>)\<close>

text \<open>One row of the history frame: the columns the scorer reads.\<close>

record bar =
  close :: fl
  high :: fl
  low :: fl
  volume :: nat

text \<open>
  \<open>Series.max()\<close> and \<open>DataFrame.max(axis=1)\<close> skip NaN; the result is NaN when
  every value is.
\<close>

fun fl_max2 :: "fl \<Rightarrow> fl \<Rightarrow> fl" where
  "fl_max2 NaN y = y"
| "fl_max2 (Fin a) NaN = Fin a"
| "fl_max2 (Fin a) (Fin b) = Fin (max a b)"

definition nanmax :: "fl list \<Rightarrow> fl" where
  "nanmax xs = foldr fl_max2 xs NaN"

fun fin_list :: "fl list \<Rightarrow> rat list option" where
  "fin_list [] = Some []"
| "fin_list (NaN # xs) = None"
| "fin_list (Fin a # xs) = map_option ((#) a) (fin_list xs)"

text \<open>
  \<open>series.rolling(window=n).mean().iloc[-1]\<close>: the mean of the last \<open>n\<close> values, NaN
  when there are fewer than \<open>n\<close> values or one of them is NaN.
\<close>

definition rolling_mean_last :: "nat \<Rightarrow> fl list \<Rightarrow> fl" where
  "rolling_mean_last n xs =
     (if length xs < n then NaN
      else (case fin_list (drop (length xs - n) xs) of
              None \<Rightarrow> NaN
            | Some w \<Rightarrow> Fin (sum_list w / of_nat n)))"

text \<open>Factor 1, the moving-average stack: its contribution and its entries.\<close>

definition ma_stack :: "pyfmt \<Rightarrow> bar list \<Rightarrow> int \<times> string list" where
  "ma_stack f hist =
     (if length hist \<ge> 200 then
        (let sma20 = rolling_mean_last 20 (map close hist);
             sma50 = rolling_mean_last 50 (map close hist);
             sma200 = rolling_mean_last 200 (map close hist)
         in if fl_gt sma20 sma50 \<and> fl_gt sma50 sma200
            then (30, [''MA Stack (20>50>200): +30''])
            else (0, [''No MA Stack (20='' @ fmt2f f sma20 @ '', 50='' @ fmt2f f sma50 @
                       '', 200='' @ fmt2f f sma200 @ '')'']))
      else (0, [''Not enough data for MA Stack'']))"

text \<open>
  Factor 2, relative volume. \<open>hist['Volume'].iloc[-15:-1]\<close> is the 14 rows before the
  last one.
\<close>

definition avg_vol_14 :: "bar list \<Rightarrow> rat" where
  "avg_vol_14 hist =
     (let w = butlast (drop (length hist - 15) (map volume hist))
      in of_nat (sum_list w) / of_nat (length w))"

definition rvol_factor :: "pyfmt \<Rightarrow> bar list \<Rightarrow> int \<times> string list" where
  "rvol_factor f hist =
     (if length hist \<ge> 15 then
        (let today_vol = volume (last hist); avg = avg_vol_14 hist
         in if avg > 0 then
              (let rvol = of_nat today_vol / avg
               in if rvol > 3 / 2
                  then (20, [''RVOL '' @ fmt2f f (Fin rvol) @ '' > 1.5: +20''])
                  else (0, [''RVOL '' @ fmt2f f (Fin rvol) @ '' <= 1.5'']))
            else (0, [''Avg Vol is 0'']))
      else (0, [''Not enough data for RVOL'']))"

text \<open>Factor 3, the price within 5% of the 52-week high.\<close>

definition high_factor :: "pyfmt \<Rightarrow> bar list \<Rightarrow> fl \<Rightarrow> int \<times> string list" where
  "high_factor f hist current_price =
     (let high_52w = nanmax (map high hist)
      in if fl_ge current_price (fl_mul high_52w (Fin (95 / 100)))
         then (20, [''Price within 5% of 52w High ('' @ fmt2f f high_52w @ ''): +20''])
         else (0, [''Price not near 52w High ('' @ fmt2f f high_52w @ '')'']))"

text \<open>
  Factor 4, ATR(14) below 5% of the price. \<open>hist['Close'].shift()\<close> is the previous
  row's close, NaN on the first row.
\<close>

definition true_range :: "bar \<Rightarrow> fl \<Rightarrow> fl" where
  "true_range b prev_close =
     nanmax [fl_sub (high b) (low b),
             fl_abs (fl_sub (high b) prev_close),
             fl_abs (fl_sub (low b) prev_close)]"

definition true_ranges :: "bar list \<Rightarrow> fl list" where
  "true_ranges hist = map (\<lambda>(b, prev_close). true_range b prev_close) (zip hist (NaN # map close hist))"

definition atr_factor :: "pyfmt \<Rightarrow> bar list \<Rightarrow> fl \<Rightarrow> int \<times> string list" where
  "atr_factor f hist current_price =
     (if length hist \<ge> 15 then
        (let atr_14 = rolling_mean_last 14 (true_ranges hist);
             atr_threshold = fl_mul current_price (Fin (5 / 100))
         in if fl_lt atr_14 atr_threshold
            then (10, [''ATR ('' @ fmt2f f atr_14 @ '') < 5% Price ('' @ fmt2f f atr_threshold @ ''): +10''])
            else (0, [''ATR ('' @ fmt2f f atr_14 @ '') >= 5% Price'']))
      else (0, [''Not enough data for ATR'']))"

text \<open>Factor 5: the sentiment adjustment is added whatever its sign.\<close>

definition sentiment_factor :: "error + keyval list \<Rightarrow> int \<times> string list" where
  "sentiment_factor news_response =
     (let sentiment_score = analyze_sentiment news_response
      in if sentiment_score > 0
         then (sentiment_score, [''Positive News Sentiment: +'' @ str_int sentiment_score])
         else if sentiment_score < 0
         then (sentiment_score, [''Negative News Sentiment: '' @ str_int sentiment_score])
         else (sentiment_score, [''Neutral/No News Sentiment'']))"

text \<open>
  Factor 6, analyst data. \<open>targetMeanPrice\<close> is None or absent, a number, or something
  a float cannot be compared with (TypeError).
\<close>

datatype target = NoTarget | Target fl | BadTarget

record info =
  targetMeanPrice :: target
  recommendationKey :: keyval

text \<open>
  The \<open>try\<close> block of factor 6. Every statement that can raise (reading \<open>stock.info\<close>,
  \<open>.lower()\<close>, the first comparison with the target) comes before the first change of
  \<open>score\<close> and \<open>details\<close>, so an exception leaves both as they were.
\<close>

definition analyst_try :: "pyfmt \<Rightarrow> error + info \<Rightarrow> fl \<Rightarrow> error + int \<times> string list" where
  "analyst_try f info_response current_price =
     (case info_response of
        Inl e \<Rightarrow> Inl e
      | Inr i \<Rightarrow>
         (case get_lower (recommendationKey i) of
            Inl e \<Rightarrow> Inl e
          | Inr recommendation \<Rightarrow>
             (let rating =
                (if recommendation \<in> set [''buy'', ''strong_buy'']
                 then (5, [''Analyst Rating '' @ [CHR 0x27] @ recommendation @ [CHR 0x27] @ '': +5''])
                 else (0, []))
              in case targetMeanPrice i of
                   NoTarget \<Rightarrow> Inr rating
                 | BadTarget \<Rightarrow> Inl (Exception ''TypeError'')
                 | Target target_price \<Rightarrow>
                     if fl_gt target_price (fl_mul current_price (Fin (120 / 100)))
                     then Inr (10 + fst rating,
                               (''Analyst Upside > 20% (Target $'' @ fmtstr f target_price @ ''): +10'')
                                 # snd rating)
                     else if fl_gt current_price target_price
                     then Inr (- 10 + fst rating,
                               (''Price > Analyst Target ($'' @ fmtstr f target_price @ ''): -10'')
                                 # snd rating)
                     else Inr rating)))"

definition analyst_factor :: "pyfmt \<Rightarrow> error + info \<Rightarrow> fl \<Rightarrow> int \<times> string list" where
  "analyst_factor f info_response current_price =
     (case analyst_try f info_response current_price of
        Inl e \<Rightarrow> (0, [''No Analyst Data''])
      | Inr r \<Rightarrow> r)"

section \<open>Deep scorer: \<open>SniperScorer.analyze_stock\<close>\<close>

text \<open>
  What the provider answers for one ticker (\<open>yf.Ticker(ticker)\<close>): each lookup raises
  or gives its data. The scorer reads them in the order history, news, info; the model
  returns the lookups made along with the outcome.
\<close>

record stock =
  history :: "error + bar list"
  news :: "error + keyval list"
  info :: "error + info"

datatype lookup = History | News | Info

record result =
  ticker :: string
  final_score :: int
  details :: string

text \<open>
  The six factor blocks, run in order on \<open>score = 0\<close> and \<open>details = []\<close>: the
  score and the list of entries they leave.
\<close>

definition score_factors :: "pyfmt \<Rightarrow> stock \<Rightarrow> bar list \<Rightarrow> fl \<Rightarrow> int \<times> string list" where
  "score_factors f s hist current_price =
     (let f1 = ma_stack f hist;
          f2 = rvol_factor f hist;
          f3 = high_factor f hist current_price;
          f4 = atr_factor f hist current_price;
          f5 = sentiment_factor (news s);
          f6 = analyst_factor f (info s) current_price
      in (0 + fst f1 + fst f2 + fst f3 + fst f4 + fst f5 + fst f6,
          [] @ snd f1 @ snd f2 @ snd f3 @ snd f4 @ snd f5 @ snd f6))"

text \<open>The body of the outer \<open>try\<close>: \<open>Inl\<close> is an exception reaching the handler.\<close>

definition analyze_try :: "pyfmt \<Rightarrow> stock \<Rightarrow> string \<Rightarrow> lookup list \<times> (error + result)" where
  "analyze_try f s t =
     (case history s of
        Inl e \<Rightarrow> ([History], Inl e)
      | Inr hist \<Rightarrow>
          if hist = [] then
            ([History], Inr \<lparr>ticker = t, final_score = 0, details = ''No data found''\<rparr>)
          else
            (let current_price = close (last hist)
             in if fl_lt current_price (Fin 2) then
                  ([History],
                   Inr \<lparr>ticker = t, final_score = 0,
                        details = ''Price $'' @ fmt2f f current_price @ '' < $2 (Hard Filter)''\<rparr>)
                else
                  (case score_factors f s hist current_price of
                     (score, entries) \<Rightarrow>
                       ([History, News, Info],
                        Inr \<lparr>ticker = t, final_score = score,
                             details = join ''; '' entries\<rparr>))))"

text \<open>
  The whole function: the handler \<open>except Exception as e\<close> turns an exception of the
  body into a result. \<open>Inl\<close> would be an exception leaving \<open>analyze_stock\<close>.
\<close>

definition analyze_stock :: "pyfmt \<Rightarrow> stock \<Rightarrow> string \<Rightarrow> lookup list \<times> (error + result)" where
  "analyze_stock f s t =
     (case analyze_try f s t of
        (ls, Inl e) \<Rightarrow>
          (ls, Inr \<lparr>ticker = t, final_score = 0, details = ''Error: '' @ str_error e\<rparr>)
      | (ls, Inr r) \<Rightarrow> (ls, Inr r))"

section \<open>Universe resolver (\<open>get_all_tickers\<close>)\<close>

text \<open>
  A cell of a symbol column: a string, or another value (None, NaN), given by the text
  \<open>str\<close> makes of it. On such a value \<open>'.' not in t\<close> raises TypeError.
\<close>

datatype cell = SymStr string | SymOther string

text \<open>
  The parsed answer of the primary source: \<open>data['data']\<close> is falsy, or it holds
  \<open>rows\<close>, each row with its \<open>symbol\<close> entry if it has one. A failed request, a body
  that is no JSON and a missing key are exceptions (\<open>Inl\<close>).
\<close>

datatype nasdaq = NoData | Rows "cell option list"

datatype source = Primary | Fallback

record web =
  primary :: "error + nasdaq"
  fallback :: "error + cell list"

text \<open>
  \<open>pd.DataFrame(rows)['symbol'].tolist()\<close>: KeyError when no row has the key, NaN in
  the rows that lack it.
\<close>

definition symbol_column :: "cell option list \<Rightarrow> error + cell list" where
  "symbol_column rows =
     (if list_all (\<lambda>r. r = None) rows then Inl (Exception ''KeyError: symbol'')
      else Inr (map (\<lambda>r. case r of None \<Rightarrow> SymOther ''nan'' | Some c \<Rightarrow> c) rows))"

definition no_dot_dash :: "string \<Rightarrow> bool" where
  "no_dot_dash t = (CHR ''.'' \<notin> set t \<and> CHR ''-'' \<notin> set t)"

text \<open>\<open>[t for t in raw_tickers if '.' not in t and '-' not in t]\<close> of the primary path.\<close>

fun dot_dash_filter :: "cell list \<Rightarrow> error + string list" where
  "dot_dash_filter [] = Inr []"
| "dot_dash_filter (SymOther v # raw) = Inl (Exception ''TypeError'')"
| "dot_dash_filter (SymStr t # raw) =
     (case dot_dash_filter raw of
        Inl e \<Rightarrow> Inl e
      | Inr tickers \<Rightarrow> Inr (if no_dot_dash t then t # tickers else tickers))"

text \<open>\<open>str.isalpha\<close> on ASCII: at least one character, and letters only.\<close>

definition alpha_char :: "char \<Rightarrow> bool" where
  "alpha_char c =
     (let n = (of_char c :: nat) in (65 \<le> n \<and> n \<le> 90) \<or> (97 \<le> n \<and> n \<le> 122))"

definition isalpha :: "string \<Rightarrow> bool" where
  "isalpha t = (t \<noteq> [] \<and> list_all alpha_char t)"

text \<open>
  Method 1. \<open>Inr None\<close>: the \<open>if\<close> was false and the block ended without a return;
  \<open>Inr (Some tickers)\<close>: the block returned; \<open>Inl\<close>: it raised, which the handler
  only prints.
\<close>

definition primary_try :: "error + nasdaq \<Rightarrow> error + string list option" where
  "primary_try response =
     (case response of
        Inl e \<Rightarrow> Inl e
      | Inr NoData \<Rightarrow> Inr None
      | Inr (Rows rows) \<Rightarrow>
          if rows = [] then Inr None
          else (case symbol_column rows of
                  Inl e \<Rightarrow> Inl e
                | Inr raw_tickers \<Rightarrow>
                    (case dot_dash_filter raw_tickers of
                       Inl e \<Rightarrow> Inl e
                     | Inr tickers \<Rightarrow> Inr (Some (filter isalpha tickers)))))"

fun py_str :: "cell \<Rightarrow> string" where
  "py_str (SymStr t) = t"
| "py_str (SymOther v) = v"

definition replace_dot :: "string \<Rightarrow> string" where
  "replace_dot t = map (\<lambda>c. if c = CHR ''.'' then CHR ''-'' else c) t"

text \<open>Method 2: the \<open>Symbol\<close> column of the index table, or an exception.\<close>

definition fallback_try :: "error + cell list \<Rightarrow> error + string list" where
  "fallback_try response =
     (case response of
        Inl e \<Rightarrow> Inl e
      | Inr symbols \<Rightarrow> Inr (filter no_dot_dash (map (\<lambda>t. replace_dot (py_str t)) symbols)))"

text \<open>The sources requested, in order, and the tickers returned.\<close>

definition get_all_tickers :: "web \<Rightarrow> source list \<times> string list" where
  "get_all_tickers w =
     (case primary_try (primary w) of
        Inr (Some tickers) \<Rightarrow> ([Primary], tickers)
      | _ \<Rightarrow>
          (case fallback_try (fallback w) of
             Inr tickers \<Rightarrow> ([Primary, Fallback], tickers)
           | Inl e \<Rightarrow> ([Primary, Fallback], [])))"

section \<open>Scanner: fast filter and signal emission (\<open>run_scanner\<close>, \<open>save_signal\<close>)\<close>

definition SCORE_THRESHOLD :: int where
  "SCORE_THRESHOLD = 75"

definition MIN_PRICE :: fl where
  "MIN_PRICE = Fin 2"

definition MIN_DOLLAR_VOLUME :: fl where
  "MIN_DOLLAR_VOLUME = Fin 5000000"

text \<open>
  A row of a ticker's slice of the bulk download. Both columns are floats there: a
  ticker without a bar on some date has NaN in that row.
\<close>

record quote =
  Close :: fl
  Volume :: fl

text \<open>
  The downloaded frame, as the slices of its top-level columns. \<open>data.empty\<close> holds when
  there is no column or no row.
\<close>

type_synonym frame = "(string \<times> quote list) list"

definition data_empty :: "frame \<Rightarrow> bool" where
  "data_empty data = list_all (\<lambda>(t, df). df = []) data"

text \<open>
  The body of the loop over the batch, for one ticker: \<open>None\<close> is \<open>continue\<close> or a
  false filter, \<open>Some\<close> the pair appended to \<open>survivors\<close>.
\<close>

definition fast_check :: "frame \<Rightarrow> string \<Rightarrow> (string \<times> fl) option" where
  "fast_check data t =
     (case map_of data t of
        None \<Rightarrow> None
      | Some df \<Rightarrow>
          if df = [] then None
          else (let last_row = last df; c = Close last_row; v = Volume last_row
                in if isna c \<or> isna v then None
                   else if fl_ge c MIN_PRICE \<and> fl_ge (fl_mul c v) MIN_DOLLAR_VOLUME
                   then Some (t, c)
                   else None))"

fun fast_loop :: "frame \<Rightarrow> string list \<Rightarrow> (string \<times> fl) list \<Rightarrow> (string \<times> fl) list" where
  "fast_loop data [] survivors = survivors"
| "fast_loop data (t # batch) survivors =
     (case fast_check data t of
        None \<Rightarrow> fast_loop data batch survivors
      | Some p \<Rightarrow> fast_loop data batch (survivors @ [p]))"

text \<open>
  The fast filter of one batch: \<open>None\<close> when the download raises or the frame is empty
  (the batch is skipped), the survivors otherwise.
\<close>

definition fast_filter :: "error + frame \<Rightarrow> string list \<Rightarrow> (string \<times> fl) list option" where
  "fast_filter download batch =
     (case download of
        Inl e \<Rightarrow> None
      | Inr data \<Rightarrow> if data_empty data then None else Some (fast_loop data batch []))"

text \<open>The row \<open>save_signal\<close> inserts.\<close>

record signal =
  sig_ticker :: string
  entry_price :: fl
  confidence_score :: int
  reasons :: string
  status :: string

text \<open>
  \<open>save_signal\<close>: the store is given by the rows sent to it so far and by \<open>insert_ok\<close>,
  which says whether the insert of a row succeeds; a failed insert raises, and the
  function returns False.
\<close>

definition save_signal ::
  "(signal \<Rightarrow> bool) \<Rightarrow> signal list \<Rightarrow> string \<Rightarrow> fl \<Rightarrow> int \<Rightarrow> string \<Rightarrow> signal list \<times> bool" where
  "save_signal insert_ok sent t price score rs =
     (let data = \<lparr>sig_ticker = t, entry_price = price, confidence_score = score,
                  reasons = rs, status = ''OPEN''\<rparr>
      in (sent @ [data], insert_ok data))"

text \<open>
  The deep analysis loop over the survivors, with the rows sent to the store and
  \<open>batch_saved\<close> as its state. An exception of the scorer would skip the ticker.
\<close>

fun deep_loop ::
  "pyfmt \<Rightarrow> (string \<Rightarrow> stock) \<Rightarrow> (signal \<Rightarrow> bool) \<Rightarrow> (string \<times> fl) list \<Rightarrow>
     signal list \<times> nat \<Rightarrow> signal list \<times> nat" where
  "deep_loop f provider insert_ok [] st = st"
| "deep_loop f provider insert_ok ((t, fast_close) # survivors) (sent, batch_saved) =
     (case snd (analyze_stock f (provider t) t) of
        Inl e \<Rightarrow> deep_loop f provider insert_ok survivors (sent, batch_saved)
      | Inr r \<Rightarrow>
          (let score = final_score r
           in if score > SCORE_THRESHOLD then
                (case save_signal insert_ok sent t fast_close score (details r) of
                   (sent', saved) \<Rightarrow>
                     deep_loop f provider insert_ok survivors
                       (sent', if saved then batch_saved + 1 else batch_saved))
              else deep_loop f provider insert_ok survivors (sent, batch_saved)))"

text \<open>One batch: fast filter, then deep analysis of its survivors.\<close>

definition scan_batch ::
  "pyfmt \<Rightarrow> (string \<Rightarrow> stock) \<Rightarrow> (signal \<Rightarrow> bool) \<Rightarrow> error + frame \<Rightarrow> string list \<Rightarrow>
     signal list \<Rightarrow> signal list \<times> nat" where
  "scan_batch f provider insert_ok download batch sent =
     (case fast_filter download batch of
        None \<Rightarrow> (sent, 0)
      | Some survivors \<Rightarrow> deep_loop f provider insert_ok survivors (sent, 0))"

text \<open>
  The Signal Emitter as the specification words it, to compare the loop with: a scored
  ticker is accepted iff its score is above 75, and the accepted signal has status OPEN
  and the fast filter's last close as entry price.
\<close>

definition spec_emit :: "string \<Rightarrow> fl \<Rightarrow> result \<Rightarrow> signal list" where
  "spec_emit t last_close r =
     (if final_score r > 75
      then [\<lparr>sig_ticker = t, entry_price = last_close, confidence_score = final_score r,
             reasons = details r, status = ''OPEN''\<rparr>]
      else [])"

section \<open>Properties of the factors\<close>


lemma keyword_loop_any:
  "keyword_loop kws title delta = (if \<exists>k \<in> set kws. sublist k title then delta else 0)"
  by (induction kws) auto

lemma headline_score_cases:
  "headline_score title =
     (if \<exists>k \<in> set positive_keywords. sublist k title then 10 else 0) +
     (if \<exists>k \<in> set negative_keywords. sublist k title then - 20 else 0)"
  by (simp add: headline_score_def keyword_loop_any)

lemma headline_score_bounds: "- 20 \<le> headline_score title \<and> headline_score title \<le> 10"
  by (simp add: headline_score_cases)

lemma news_loop_titles:
  "news_loop (map Str titles) acc = Inr (acc + sum_list (map (\<lambda>t. headline_score (lower t)) titles))"
  by (induction titles arbitrary: acc) simp_all

lemma news_loop_bounds:
  "news_loop items acc = Inr s \<Longrightarrow>
     acc - 20 * int (length items) \<le> s \<and> s \<le> acc + 10 * int (length items)"
proof (induction items arbitrary: acc)
  case Nil
  then show ?case by simp
next
  case (Cons item items)
  then obtain title where t: "get_lower item = Inr title"
    and r: "news_loop items (acc + headline_score title) = Inr s"
    by (auto split: sum.splits)
  from Cons.IH [OF r] headline_score_bounds [of title] show ?case by simp
qed

lemma analyze_sentiment_bounds:
  "- 60 \<le> analyze_sentiment n \<and> analyze_sentiment n \<le> 30"
proof (cases n)
  case (Inl e)
  then show ?thesis by (simp add: analyze_sentiment_def)
next
  case (Inr items)
  show ?thesis
  proof (cases "news_loop (take 3 items) 0")
    case (Inl e)
    with Inr show ?thesis by (simp add: analyze_sentiment_def)
  next
    case r: (Inr s)
    from news_loop_bounds [OF r] have "- 60 \<le> s \<and> s \<le> 30" by auto
    with Inr r show ?thesis by (simp add: analyze_sentiment_def)
  qed
qed


lemma ma_stack_fst: "fst (ma_stack f hist) \<in> {0, 30}"
  by (simp add: ma_stack_def Let_def)


lemma rvol_fst: "fst (rvol_factor f hist) \<in> {0, 20}"
  by (simp add: rvol_factor_def Let_def)


lemma high_fst: "fst (high_factor f hist p) \<in> {0, 20}"
  by (simp add: high_factor_def Let_def)


lemma atr_fst: "fst (atr_factor f hist p) \<in> {0, 10}"
  by (simp add: atr_factor_def Let_def)


lemma sentiment_fst: "fst (sentiment_factor n) = analyze_sentiment n"
  by (simp add: sentiment_factor_def Let_def)


lemma analyst_try_bounds:
  "analyst_try f i p = Inr r \<Longrightarrow> - 10 \<le> fst r \<and> fst r \<le> 15 \<and> length (snd r) \<le> 2"
  by (auto simp: analyst_try_def Let_def split: sum.splits target.splits if_splits)

lemma analyst_bounds:
  "- 10 \<le> fst (analyst_factor f i p) \<and> fst (analyst_factor f i p) \<le> 15 \<and>
   length (snd (analyst_factor f i p)) \<le> 2"
proof (cases "analyst_try f i p")
  case (Inl e)
  then show ?thesis by (simp add: analyst_factor_def)
next
  case (Inr r)
  with analyst_try_bounds [OF Inr] show ?thesis by (simp add: analyst_factor_def)
qed

lemma score_factors_bounds:
  "- 70 \<le> fst (score_factors f s hist p) \<and> fst (score_factors f s hist p) \<le> 125"
proof -
  have "fst (ma_stack f hist) \<in> {0, 30}" "fst (rvol_factor f hist) \<in> {0, 20}"
    "fst (high_factor f hist p) \<in> {0, 20}" "fst (atr_factor f hist p) \<in> {0, 10}"
    by (rule ma_stack_fst rvol_fst high_fst atr_fst)+
  moreover have "- 60 \<le> fst (sentiment_factor (news s)) \<and> fst (sentiment_factor (news s)) \<le> 30"
    by (simp add: sentiment_fst analyze_sentiment_bounds)
  moreover note analyst_bounds [of f "info s" p]
  ultimately show ?thesis
    by (auto simp: score_factors_def Let_def)
qed

lemma analyze_try_cases:
  "analyze_try f s t =
     (case history s of
        Inl e \<Rightarrow> ([History], Inl e)
      | Inr hist \<Rightarrow>
          if hist = [] then ([History], Inr \<lparr>ticker = t, final_score = 0, details = ''No data found''\<rparr>)
          else if fl_lt (close (last hist)) (Fin 2) then
            ([History], Inr \<lparr>ticker = t, final_score = 0,
               details = ''Price $'' @ fmt2f f (close (last hist)) @ '' < $2 (Hard Filter)''\<rparr>)
          else ([History, News, Info],
                Inr \<lparr>ticker = t, final_score = fst (score_factors f s hist (close (last hist))),
                     details = join ''; '' (snd (score_factors f s hist (close (last hist))))\<rparr>))"
  by (simp add: analyze_try_def Let_def split: sum.splits prod.splits)

lemma analyze_stock_cases:
  "snd (analyze_stock f s t) =
     (case snd (analyze_try f s t) of
        Inl e \<Rightarrow> Inr \<lparr>ticker = t, final_score = 0, details = ''Error: '' @ str_error e\<rparr>
      | Inr r \<Rightarrow> Inr r)"
  by (simp add: analyze_stock_def split: prod.splits sum.splits)

lemma analyze_stock_lookups: "fst (analyze_stock f s t) = fst (analyze_try f s t)"
  by (simp add: analyze_stock_def split: prod.splits sum.splits)

lemma analyze_stock_returns: "\<exists>r. snd (analyze_stock f s t) = Inr r"
  by (simp add: analyze_stock_cases split: sum.splits)

lemma analyze_stock_score_bounds:
  assumes "snd (analyze_stock f s t) = Inr r"
  shows "- 70 \<le> final_score r \<and> final_score r \<le> 125"
proof (cases "history s")
  case (Inl e)
  with assms show ?thesis by (auto simp: analyze_stock_cases analyze_try_cases)
next
  case (Inr hist)
  note b = score_factors_bounds [of f s hist "close (last hist)"]
  from assms Inr b show ?thesis
    by (auto simp: analyze_stock_cases analyze_try_cases split: if_splits)
qed


lemma avg_vol_14_nonneg: "0 \<le> avg_vol_14 hist"
  by (simp add: avg_vol_14_def Let_def)



lemma fast_loop_set:
  "set (fast_loop data batch survivors) =
     set survivors \<union> {p. \<exists>t \<in> set batch. fast_check data t = Some p}"
  by (induction batch arbitrary: survivors) (auto split: option.splits)

lemma fast_check_Some:
  "fast_check data t = Some p \<longleftrightarrow>
     (\<exists>df. map_of data t = Some df \<and> df \<noteq> [] \<and>
        \<not> isna (Close (last df)) \<and> \<not> isna (Volume (last df)) \<and>
        fl_ge (Close (last df)) MIN_PRICE \<and>
        fl_ge (fl_mul (Close (last df)) (Volume (last df))) MIN_DOLLAR_VOLUME \<and>
        p = (t, Close (last df)))"
  by (auto simp: fast_check_def Let_def split: option.splits)

lemma fast_check_fst: "fast_check data t = Some (u, x) \<Longrightarrow> u = t"
  by (auto simp: fast_check_Some)

lemma fast_loop_member:
  "(t, x) \<in> set (fast_loop data batch []) \<longleftrightarrow> t \<in> set batch \<and> fast_check data t = Some (t, x)"
  using fast_check_fst by (fastforce simp: fast_loop_set)


lemma deep_loop_sent:
  "fst (deep_loop f provider insert_ok survivors (sent, n)) =
     sent @ concat (map (\<lambda>(t, last_close).
                      case snd (analyze_stock f (provider t) t) of
                        Inl e \<Rightarrow> []
                      | Inr r \<Rightarrow> spec_emit t last_close r) survivors)"
proof (induction survivors arbitrary: sent n)
  case Nil
  show ?case by simp
next
  case (Cons a survivors)
  obtain t c where a: "a = (t, c)" by (cases a)
  obtain r where r: "snd (analyze_stock f (provider t) t) = Inr r"
    using analyze_stock_returns by blast
  show ?case
    by (simp add: a r Cons.IH save_signal_def spec_emit_def SCORE_THRESHOLD_def Let_def)
qed

lemma fast_filter_close:
  assumes "fast_filter download batch = Some survivors" and "(t, c) \<in> set survivors"
  shows "\<exists>data df. download = Inr data \<and> map_of data t = Some df \<and> df \<noteq> [] \<and> c = Close (last df)"
proof -
  from assms(1) obtain data where d: "download = Inr data"
    and sv: "survivors = fast_loop data batch []"
    by (auto simp: fast_filter_def split: sum.splits if_splits)
  from assms(2) sv have "fast_check data t = Some (t, c)"
    by (simp add: fast_loop_member)
  then obtain df where "map_of data t = Some df" "df \<noteq> []" "c = Close (last df)"
    by (auto simp: fast_check_Some)
  with d show ?thesis by blast
qed

lemma replicate_14: "replicate 14 x = [x, x, x, x, x, x, x, x, x, x, x, x, x, x]"
  by (simp add: numeral_eq_Suc)

lemma analyze_stock_passed:
  assumes "history s = Inr hist" and "hist \<noteq> []" and "\<not> fl_lt (close (last hist)) (Fin 2)"
  shows "analyze_stock f s t =
           ([History, News, Info],
            Inr \<lparr>ticker = t, final_score = fst (score_factors f s hist (close (last hist))),
                 details = join ''; '' (snd (score_factors f s hist (close (last hist))))\<rparr>)"
  using assms by (simp add: analyze_stock_def analyze_try_cases)

lemma primary_try_None:
  "primary_try r = Inr None \<longleftrightarrow> r = Inr NoData \<or> r = Inr (Rows [])"
  by (auto simp: primary_try_def split: sum.splits nasdaq.splits if_splits)

lemma get_all_tickers_sources:
  "fst (get_all_tickers w) =
     (case primary_try (primary w) of Inr (Some tickers) \<Rightarrow> [Primary] | _ \<Rightarrow> [Primary, Fallback])"
  by (simp add: get_all_tickers_def split: sum.splits option.splits)

section \<open>The claims\<close>

text \<open>
  In the examples below the number formats are fixed functions: the statements hold for
  every choice of them.
\<close>

text \<open>
  C2. When the fetched history is empty, or its most recent close is strictly below 2,
  \<open>analyze_stock\<close> returns at once: the only lookup made is the history (the news and
  analyst factors are not evaluated), the final score is 0, and \<open>details\<close> is the single
  reason of the hard filter, with no contribution and no entry of any factor.
\<close>

theorem C2_hard_filter:
  assumes "history s = Inr hist"
    and "hist = [] \<or> fl_lt (close (last hist)) (Fin 2)"
  shows "analyze_stock f s t =
           ([History],
            Inr \<lparr>ticker = t, final_score = 0,
                 details = (if hist = [] then ''No data found''
                            else ''Price $'' @ fmt2f f (close (last hist)) @ '' < $2 (Hard Filter)'')\<rparr>)"
  using assms by (auto simp: analyze_stock_def analyze_try_cases)

text \<open>C2 at a one-bar history closing at 1.50, with news and analyst data that would score.\<close>

theorem C2_hard_filter_witness:
  "history \<lparr>history = Inr [\<lparr>close = Fin (3 / 2), high = Fin 2, low = Fin 1, volume = 900\<rparr>],
            news = Inr [Str ''Shares surge on upgrade''],
            info = Inr \<lparr>targetMeanPrice = Target (Fin 9), recommendationKey = Str ''buy''\<rparr>\<rparr>
     = Inr [\<lparr>close = Fin (3 / 2), high = Fin 2, low = Fin 1, volume = 900\<rparr>]
   \<and> fl_lt (Fin (3 / 2)) (Fin 2)
   \<and> analyze_stock \<lparr>fmt2f = (\<lambda>x. ''1.50''), fmtstr = (\<lambda>x. ''9.0'')\<rparr>
        \<lparr>history = Inr [\<lparr>close = Fin (3 / 2), high = Fin 2, low = Fin 1, volume = 900\<rparr>],
         news = Inr [Str ''Shares surge on upgrade''],
         info = Inr \<lparr>targetMeanPrice = Target (Fin 9), recommendationKey = Str ''buy''\<rparr>\<rparr>
        ''PENNY''
     = ([History],
        Inr \<lparr>ticker = ''PENNY'', final_score = 0, details = ''Price $1.50 < $2 (Hard Filter)''\<rparr>)"
  using C2_hard_filter [of
      "\<lparr>history = Inr [\<lparr>close = Fin (3 / 2), high = Fin 2, low = Fin 1, volume = 900\<rparr>],
         news = Inr [Str ''Shares surge on upgrade''],
         info = Inr \<lparr>targetMeanPrice = Target (Fin 9), recommendationKey = Str ''buy''\<rparr>\<rparr>"
      "[\<lparr>close = Fin (3 / 2), high = Fin 2, low = Fin 1, volume = 900\<rparr>]"
      "\<lparr>fmt2f = (\<lambda>x. ''1.50''), fmtstr = (\<lambda>x. ''9.0'')\<rparr>" "''PENNY''"]
  by simp

text \<open>
  C6. \<open>analyze_stock\<close> always returns a result and lets no exception through, whatever
  the provider answers: failures of the news and analyst lookups are handled inside their
  factors, so the body fails exactly when the history lookup raises, and then the result
  has final score 0 and the error message as its only reason.
\<close>

theorem C6_never_raises:
  "(\<exists>r. snd (analyze_stock f s t) = Inr r) \<and>
   (snd (analyze_try f s t) = Inl e \<longleftrightarrow> history s = Inl e) \<and>
   (history s = Inl e \<longrightarrow>
      analyze_stock f s t =
        ([History], Inr \<lparr>ticker = t, final_score = 0, details = ''Error: '' @ str_error e\<rparr>))"
proof (intro conjI)
  show "\<exists>r. snd (analyze_stock f s t) = Inr r" by (rule analyze_stock_returns)
  show "snd (analyze_try f s t) = Inl e \<longleftrightarrow> history s = Inl e"
    by (auto simp: analyze_try_cases split: sum.splits)
  show "history s = Inl e \<longrightarrow>
      analyze_stock f s t =
        ([History], Inr \<lparr>ticker = t, final_score = 0, details = ''Error: '' @ str_error e\<rparr>)"
    by (simp add: analyze_stock_def analyze_try_cases)
qed

text \<open>C6 at a provider whose history lookup raises.\<close>

theorem C6_never_raises_witness:
  "history \<lparr>history = Inl (Exception ''No timezone found''), news = Inr [], info = Inl (Exception ''404'')\<rparr>
     = Inl (Exception ''No timezone found'')
   \<and> analyze_stock \<lparr>fmt2f = (\<lambda>x. ''0.00''), fmtstr = (\<lambda>x. ''0.0'')\<rparr>
        \<lparr>history = Inl (Exception ''No timezone found''), news = Inr [], info = Inl (Exception ''404'')\<rparr>
        ''GONE''
     = ([History], Inr \<lparr>ticker = ''GONE'', final_score = 0, details = ''Error: No timezone found''\<rparr>)"
  using C6_never_raises [of "\<lparr>fmt2f = (\<lambda>x. ''0.00''), fmtstr = (\<lambda>x. ''0.0'')\<rparr>"
      "\<lparr>history = Inl (Exception ''No timezone found''), news = Inr [], info = Inl (Exception ''404'')\<rparr>"
      "''GONE''" "Exception ''No timezone found''"]
  by simp

text \<open>
  C8. On a list of headlines the sentiment factor is the sum, over the first three
  (the most recent), of the headline's score; a headline scores +10 if some positive
  keyword is a substring of its lower-cased title, plus -20 if some negative keyword is,
  so at most one of each per headline, and both may fire: a title containing "buy" and
  "crash" scores -10. A failed news lookup gives 0.
\<close>

theorem C8_sentiment:
  "analyze_sentiment (Inr (map Str titles)) =
     sum_list (map (\<lambda>title. headline_score (lower title)) (take 3 titles)) \<and>
   headline_score title =
     (if \<exists>k \<in> set positive_keywords. sublist k title then 10 else 0) +
     (if \<exists>k \<in> set negative_keywords. sublist k title then - 20 else 0) \<and>
   (sublist ''buy'' title \<and> sublist ''crash'' title \<longrightarrow> headline_score title = - 10) \<and>
   analyze_sentiment (Inl e) = 0"
proof (intro conjI)
  have "news_loop (take 3 (map Str titles)) 0 =
          Inr (sum_list (map (\<lambda>title. headline_score (lower title)) (take 3 titles)))"
    using news_loop_titles [of "take 3 titles" 0] by (simp add: take_map)
  then show "analyze_sentiment (Inr (map Str titles)) =
     sum_list (map (\<lambda>title. headline_score (lower title)) (take 3 titles))"
    by (simp add: analyze_sentiment_def)
  show "headline_score title =
     (if \<exists>k \<in> set positive_keywords. sublist k title then 10 else 0) +
     (if \<exists>k \<in> set negative_keywords. sublist k title then - 20 else 0)"
    by (rule headline_score_cases)
  show "sublist ''buy'' title \<and> sublist ''crash'' title \<longrightarrow> headline_score title = - 10"
    by (auto simp: headline_score_cases positive_keywords_def negative_keywords_def)
  show "analyze_sentiment (Inl e) = 0"
    by (simp add: analyze_sentiment_def)
qed

text \<open>C8 at four headlines: the fourth is not read, the first scores -10 by itself.\<close>

theorem C8_sentiment_witness:
  "sublist ''buy'' (lower ''Buy before the CRASH'') \<and>
   sublist ''crash'' (lower ''Buy before the CRASH'') \<and>
   headline_score (lower ''Buy before the CRASH'') = - 10 \<and>
   analyze_sentiment
     (Inr (map Str [''Buy before the CRASH'', ''Record growth'', ''Lawsuit filed'', ''Shares surge''])) = - 20"
proof -
  have a: "sublist ''buy'' (lower ''Buy before the CRASH'')" by code_simp
  have b: "sublist ''crash'' (lower ''Buy before the CRASH'')" by code_simp
  have c: "headline_score (lower ''Record growth'') = 10" by code_simp
  have d: "headline_score (lower ''Lawsuit filed'') = - 20" by code_simp
  note w = C8_sentiment [of "[''Buy before the CRASH'', ''Record growth'', ''Lawsuit filed'', ''Shares surge'']"
      "lower ''Buy before the CRASH''" "Exception ''x''"]
  from w a b have e: "headline_score (lower ''Buy before the CRASH'') = - 10" by blast
  from w have "analyze_sentiment
     (Inr (map Str [''Buy before the CRASH'', ''Record growth'', ''Lawsuit filed'', ''Shares surge''])) =
     sum_list (map (\<lambda>title. headline_score (lower title))
       (take 3 [''Buy before the CRASH'', ''Record growth'', ''Lawsuit filed'', ''Shares surge'']))"
    by blast
  with c d e have "analyze_sentiment
     (Inr (map Str [''Buy before the CRASH'', ''Record growth'', ''Lawsuit filed'', ''Shares surge''])) = - 20"
    by simp
  with a b e show ?thesis by blast
qed

text \<open>
  C10. The final score of \<open>analyze_stock\<close> is between -70 and 125: the four technical
  factors contribute 0 or their bonus (30, 20, 20, 10), the sentiment factor between -60
  and 30, the analyst factor between -10 and 15, and every error path gives 0 (a failed
  body a final score of 0; a failed news lookup, a failure inside the news loop and a
  failed analyst block a contribution of 0).
\<close>

theorem C10_score_range:
  "(\<exists>r. snd (analyze_stock f s t) = Inr r \<and> - 70 \<le> final_score r \<and> final_score r \<le> 125) \<and>
   fst (ma_stack f hist) \<in> {0, 30} \<and>
   fst (rvol_factor f hist) \<in> {0, 20} \<and>
   fst (high_factor f hist p) \<in> {0, 20} \<and>
   fst (atr_factor f hist p) \<in> {0, 10} \<and>
   - 60 \<le> fst (sentiment_factor n) \<and> fst (sentiment_factor n) \<le> 30 \<and>
   - 10 \<le> fst (analyst_factor f i p) \<and> fst (analyst_factor f i p) \<le> 15 \<and>
   (\<forall>e. snd (analyze_try f s t) = Inl e \<longrightarrow>
      (\<exists>r. snd (analyze_stock f s t) = Inr r \<and> final_score r = 0)) \<and>
   (\<forall>e. n = Inl e \<longrightarrow> fst (sentiment_factor n) = 0) \<and>
   (\<forall>e items. n = Inr items \<and> news_loop (take 3 items) 0 = Inl e \<longrightarrow> fst (sentiment_factor n) = 0) \<and>
   (\<forall>e. analyst_try f i p = Inl e \<longrightarrow> fst (analyst_factor f i p) = 0)"
proof -
  obtain r where r: "snd (analyze_stock f s t) = Inr r"
    using analyze_stock_returns by blast
  from analyze_stock_score_bounds [OF r] r
  have 1: "\<exists>r. snd (analyze_stock f s t) = Inr r \<and> - 70 \<le> final_score r \<and> final_score r \<le> 125"
    by blast
  have 2: "- 60 \<le> fst (sentiment_factor n) \<and> fst (sentiment_factor n) \<le> 30"
    by (simp add: sentiment_fst analyze_sentiment_bounds)
  have 3: "\<forall>e. snd (analyze_try f s t) = Inl e \<longrightarrow>
      (\<exists>r. snd (analyze_stock f s t) = Inr r \<and> final_score r = 0)"
    by (simp add: analyze_stock_cases)
  have 4: "\<forall>e. n = Inl e \<longrightarrow> fst (sentiment_factor n) = 0"
    by (simp add: sentiment_fst analyze_sentiment_def)
  have 5: "\<forall>e items. n = Inr items \<and> news_loop (take 3 items) 0 = Inl e \<longrightarrow> fst (sentiment_factor n) = 0"
    by (simp add: sentiment_fst analyze_sentiment_def)
  have 6: "\<forall>e. analyst_try f i p = Inl e \<longrightarrow> fst (analyst_factor f i p) = 0"
    by (simp add: analyst_factor_def)
  from 1 2 3 4 5 6 ma_stack_fst [of f hist] rvol_fst [of f hist] high_fst [of f hist p]
    atr_fst [of f hist p] analyst_bounds [of f i p]
  show ?thesis by blast
qed

text \<open>C10 on the error paths: the history lookup, the news loop and the analyst block raise.\<close>

theorem C10_score_range_witness:
  "snd (analyze_try \<lparr>fmt2f = (\<lambda>x. ''0.00''), fmtstr = (\<lambda>x. ''0.0'')\<rparr>
          \<lparr>history = Inl (Exception ''timeout''), news = Inr [], info = Inl (Exception ''404'')\<rparr> ''ACME'')
     = Inl (Exception ''timeout'') \<and>
   (\<exists>r. snd (analyze_stock \<lparr>fmt2f = (\<lambda>x. ''0.00''), fmtstr = (\<lambda>x. ''0.0'')\<rparr>
          \<lparr>history = Inl (Exception ''timeout''), news = Inr [], info = Inl (Exception ''404'')\<rparr> ''ACME'')
        = Inr r \<and> final_score r = 0) \<and>
   news_loop (take 3 [Str ''Shares surge'', NonStr]) 0 = Inl (Exception ''AttributeError: lower'') \<and>
   fst (sentiment_factor (Inr [Str ''Shares surge'', NonStr])) = 0 \<and>
   analyst_try \<lparr>fmt2f = (\<lambda>x. ''0.00''), fmtstr = (\<lambda>x. ''0.0'')\<rparr>
     (Inr \<lparr>targetMeanPrice = BadTarget, recommendationKey = Str ''buy''\<rparr>) (Fin 10)
     = Inl (Exception ''TypeError'') \<and>
   fst (analyst_factor \<lparr>fmt2f = (\<lambda>x. ''0.00''), fmtstr = (\<lambda>x. ''0.0'')\<rparr>
     (Inr \<lparr>targetMeanPrice = BadTarget, recommendationKey = Str ''buy''\<rparr>) (Fin 10)) = 0"
proof -
  have a: "snd (analyze_try \<lparr>fmt2f = (\<lambda>x. ''0.00''), fmtstr = (\<lambda>x. ''0.0'')\<rparr>
          \<lparr>history = Inl (Exception ''timeout''), news = Inr [], info = Inl (Exception ''404'')\<rparr> ''ACME'')
     = Inl (Exception ''timeout'')"
    by (simp add: analyze_try_def)
  have b: "news_loop (take 3 [Str ''Shares surge'', NonStr]) 0 = Inl (Exception ''AttributeError: lower'')"
    by simp
  have c: "analyst_try \<lparr>fmt2f = (\<lambda>x. ''0.00''), fmtstr = (\<lambda>x. ''0.0'')\<rparr>
     (Inr \<lparr>targetMeanPrice = BadTarget, recommendationKey = Str ''buy''\<rparr>) (Fin 10)
     = Inl (Exception ''TypeError'')"
    by (simp add: analyst_try_def)
  from a b c C10_score_range [of "\<lparr>fmt2f = (\<lambda>x. ''0.00''), fmtstr = (\<lambda>x. ''0.0'')\<rparr>"
      "\<lparr>history = Inl (Exception ''timeout''), news = Inr [], info = Inl (Exception ''404'')\<rparr>" "''ACME''"
      "[]" "Fin 10" "Inr [Str ''Shares surge'', NonStr]"
      "Inr \<lparr>targetMeanPrice = BadTarget, recommendationKey = Str ''buy''\<rparr>"]
  show ?thesis by blast
qed





text \<open>
  C1. In a batch, the rows sent to the store are, in order, one row for each survivor of
  the fast filter whose final score is strictly above 75 and none for the others (a
  score of exactly 75 sends nothing); every survivor is scored; each row has status OPEN,
  the score and reasons of the scorer, and as entry price the close the fast filter read
  in the last row of the ticker's slice, not the scorer's own current price.
\<close>

theorem C1_signal_emitter:
  "fst (scan_batch f provider insert_ok download batch sent) =
     sent @ concat (map (\<lambda>(t, last_close).
                      case snd (analyze_stock f (provider t) t) of
                        Inl e \<Rightarrow> []
                      | Inr r \<Rightarrow> spec_emit t last_close r)
                    (case fast_filter download batch of None \<Rightarrow> [] | Some survivors \<Rightarrow> survivors)) \<and>
   (\<forall>t. \<exists>r. snd (analyze_stock f (provider t) t) = Inr r) \<and>
   (\<forall>survivors. fast_filter download batch = Some survivors \<longrightarrow>
      (\<forall>(t, last_close) \<in> set survivors.
          \<exists>data df. download = Inr data \<and> map_of data t = Some df \<and> df \<noteq> [] \<and>
                    last_close = Close (last df)))"
proof (intro conjI)
  show "fst (scan_batch f provider insert_ok download batch sent) =
     sent @ concat (map (\<lambda>(t, last_close).
                      case snd (analyze_stock f (provider t) t) of
                        Inl e \<Rightarrow> []
                      | Inr r \<Rightarrow> spec_emit t last_close r)
                    (case fast_filter download batch of None \<Rightarrow> [] | Some survivors \<Rightarrow> survivors))"
    by (simp add: scan_batch_def deep_loop_sent split: option.splits)
  show "\<forall>t. \<exists>r. snd (analyze_stock f (provider t) t) = Inr r"
    using analyze_stock_returns by blast
  show "\<forall>survivors. fast_filter download batch = Some survivors \<longrightarrow>
      (\<forall>(t, last_close) \<in> set survivors.
          \<exists>data df. download = Inr data \<and> map_of data t = Some df \<and> df \<noteq> [] \<and>
                    last_close = Close (last df))"
    using fast_filter_close by blast
qed

text \<open>
  C1 on a batch of two survivors: AAA scores 80 and is sent with the fast filter's close
  10.50 (its history closes at 10), BBB scores exactly 75 and is not sent.
\<close>

theorem C1_signal_emitter_witness:
  "fast_filter (Inr [(''AAA'', [\<lparr>Close = Fin (21 / 2), Volume = Fin 1000000\<rparr>]), (''BBB'', [\<lparr>Close = Fin 20, Volume = Fin 1000000\<rparr>])]) [''AAA'', ''BBB''] = Some [(''AAA'', Fin (21 / 2)), (''BBB'', Fin 20)] \<and>
   (\<exists>r. snd (analyze_stock \<lparr>fmt2f = (\<lambda>x. ''#''), fmtstr = (\<lambda>x. ''#'')\<rparr> ((\<lambda>t. if t = ''AAA'' then \<lparr>history = Inr (replicate 14 \<lparr>close = Fin 10, high = Fin 10, low = Fin 10, volume = 1000\<rparr> @ [\<lparr>close = Fin 10, high = Fin 10, low = Fin 10, volume = 2000\<rparr>]), news = (Inr [Str ''Record growth'', Str ''Shares surge'', Str ''Analysts upgrade'']), info = Inl (Exception ''404'')\<rparr> else \<lparr>history = Inr (replicate 14 \<lparr>close = Fin 10, high = Fin 10, low = Fin 10, volume = 1000\<rparr> @ [\<lparr>close = Fin 10, high = Fin 10, low = Fin 10, volume = 2000\<rparr>]), news = (Inr [Str ''Record growth'']), info = (Inr \<lparr>targetMeanPrice = Target (Fin 13), recommendationKey = Str ''Buy''\<rparr>)\<rparr>) ''AAA'') ''AAA'') = Inr r \<and> final_score r = 80) \<and>
   (\<exists>r. snd (analyze_stock \<lparr>fmt2f = (\<lambda>x. ''#''), fmtstr = (\<lambda>x. ''#'')\<rparr> ((\<lambda>t. if t = ''AAA'' then \<lparr>history = Inr (replicate 14 \<lparr>close = Fin 10, high = Fin 10, low = Fin 10, volume = 1000\<rparr> @ [\<lparr>close = Fin 10, high = Fin 10, low = Fin 10, volume = 2000\<rparr>]), news = (Inr [Str ''Record growth'', Str ''Shares surge'', Str ''Analysts upgrade'']), info = Inl (Exception ''404'')\<rparr> else \<lparr>history = Inr (replicate 14 \<lparr>close = Fin 10, high = Fin 10, low = Fin 10, volume = 1000\<rparr> @ [\<lparr>close = Fin 10, high = Fin 10, low = Fin 10, volume = 2000\<rparr>]), news = (Inr [Str ''Record growth'']), info = (Inr \<lparr>targetMeanPrice = Target (Fin 13), recommendationKey = Str ''Buy''\<rparr>)\<rparr>) ''BBB'') ''BBB'') = Inr r \<and> final_score r = 75) \<and>
   fst (scan_batch \<lparr>fmt2f = (\<lambda>x. ''#''), fmtstr = (\<lambda>x. ''#'')\<rparr> (\<lambda>t. if t = ''AAA'' then \<lparr>history = Inr (replicate 14 \<lparr>close = Fin 10, high = Fin 10, low = Fin 10, volume = 1000\<rparr> @ [\<lparr>close = Fin 10, high = Fin 10, low = Fin 10, volume = 2000\<rparr>]), news = (Inr [Str ''Record growth'', Str ''Shares surge'', Str ''Analysts upgrade'']), info = Inl (Exception ''404'')\<rparr> else \<lparr>history = Inr (replicate 14 \<lparr>close = Fin 10, high = Fin 10, low = Fin 10, volume = 1000\<rparr> @ [\<lparr>close = Fin 10, high = Fin 10, low = Fin 10, volume = 2000\<rparr>]), news = (Inr [Str ''Record growth'']), info = (Inr \<lparr>targetMeanPrice = Target (Fin 13), recommendationKey = Str ''Buy''\<rparr>)\<rparr>) (\<lambda>s. True) (Inr [(''AAA'', [\<lparr>Close = Fin (21 / 2), Volume = Fin 1000000\<rparr>]), (''BBB'', [\<lparr>Close = Fin 20, Volume = Fin 1000000\<rparr>])]) [''AAA'', ''BBB''] []) =
     [\<lparr>sig_ticker = ''AAA'', entry_price = Fin (21 / 2), confidence_score = 80,
       reasons = ''Not enough data for MA Stack; RVOL # > 1.5: +20; Price within 5% of 52w High (#): +20; ATR (#) < 5% Price (#): +10; Positive News Sentiment: +30; No Analyst Data'', status = ''OPEN''\<rparr>]"
proof -
  have ff: "fast_filter (Inr [(''AAA'', [\<lparr>Close = Fin (21 / 2), Volume = Fin 1000000\<rparr>]), (''BBB'', [\<lparr>Close = Fin 20, Volume = Fin 1000000\<rparr>])]) [''AAA'', ''BBB''] = Some [(''AAA'', Fin (21 / 2)), (''BBB'', Fin 20)]"
    by (simp add: fast_filter_def data_empty_def fast_check_def MIN_PRICE_def MIN_DOLLAR_VOLUME_def)
  have f1: "ma_stack \<lparr>fmt2f = (\<lambda>x. ''#''), fmtstr = (\<lambda>x. ''#'')\<rparr> (replicate 14 \<lparr>close = Fin 10, high = Fin 10, low = Fin 10, volume = 1000\<rparr> @ [\<lparr>close = Fin 10, high = Fin 10, low = Fin 10, volume = 2000\<rparr>]) = (0, [''Not enough data for MA Stack''])"
    by (simp add: ma_stack_def)
  have f2: "rvol_factor \<lparr>fmt2f = (\<lambda>x. ''#''), fmtstr = (\<lambda>x. ''#'')\<rparr> (replicate 14 \<lparr>close = Fin 10, high = Fin 10, low = Fin 10, volume = 1000\<rparr> @ [\<lparr>close = Fin 10, high = Fin 10, low = Fin 10, volume = 2000\<rparr>]) = (20, [''RVOL # > 1.5: +20''])"
    by (simp add: rvol_factor_def avg_vol_14_def replicate_14)
  have f3: "high_factor \<lparr>fmt2f = (\<lambda>x. ''#''), fmtstr = (\<lambda>x. ''#'')\<rparr> (replicate 14 \<lparr>close = Fin 10, high = Fin 10, low = Fin 10, volume = 1000\<rparr> @ [\<lparr>close = Fin 10, high = Fin 10, low = Fin 10, volume = 2000\<rparr>]) (Fin 10) = (20, [''Price within 5% of 52w High (#): +20''])"
    by (simp add: high_factor_def nanmax_def replicate_14)
  have f4: "atr_factor \<lparr>fmt2f = (\<lambda>x. ''#''), fmtstr = (\<lambda>x. ''#'')\<rparr> (replicate 14 \<lparr>close = Fin 10, high = Fin 10, low = Fin 10, volume = 1000\<rparr> @ [\<lparr>close = Fin 10, high = Fin 10, low = Fin 10, volume = 2000\<rparr>]) (Fin 10) = (10, [''ATR (#) < 5% Price (#): +10''])"
    by (simp add: atr_factor_def true_ranges_def true_range_def nanmax_def rolling_mean_last_def
        replicate_14)
  have h1: "headline_score (lower ''Record growth'') = 10" by code_simp
  have h2: "headline_score (lower ''Shares surge'') = 10" by code_simp
  have h3: "headline_score (lower ''Analysts upgrade'') = 10" by code_simp
  have s30: "str_int 30 = ''30''" by code_simp
  have s10: "str_int 10 = ''10''" by code_simp
  have f5: "sentiment_factor (Inr [Str ''Record growth'', Str ''Shares surge'', Str ''Analysts upgrade'']) = (30, [''Positive News Sentiment: +30''])"
    by (simp add: sentiment_factor_def analyze_sentiment_def h1 h2 h3 s30)
  have f5': "sentiment_factor (Inr [Str ''Record growth'']) = (10, [''Positive News Sentiment: +10''])"
    by (simp add: sentiment_factor_def analyze_sentiment_def h1 s10)
  have f6: "analyst_factor \<lparr>fmt2f = (\<lambda>x. ''#''), fmtstr = (\<lambda>x. ''#'')\<rparr> (Inl (Exception ''404'')) (Fin 10) = (0, [''No Analyst Data''])"
    by (simp add: analyst_factor_def analyst_try_def)
  have lw: "lower ''Buy'' = ''buy''" by code_simp
  have f6': "analyst_factor \<lparr>fmt2f = (\<lambda>x. ''#''), fmtstr = (\<lambda>x. ''#'')\<rparr> (Inr \<lparr>targetMeanPrice = Target (Fin 13), recommendationKey = Str ''Buy''\<rparr>) (Fin 10) =
      (15, [''Analyst Upside > 20% (Target $#): +10'',
            ''Analyst Rating '' @ [CHR 0x27] @ ''buy'' @ [CHR 0x27] @ '': +5''])"
    by (simp add: analyst_factor_def analyst_try_def lw fl_gt_def)
  have a80: "snd (analyze_stock \<lparr>fmt2f = (\<lambda>x. ''#''), fmtstr = (\<lambda>x. ''#'')\<rparr> \<lparr>history = Inr (replicate 14 \<lparr>close = Fin 10, high = Fin 10, low = Fin 10, volume = 1000\<rparr> @ [\<lparr>close = Fin 10, high = Fin 10, low = Fin 10, volume = 2000\<rparr>]), news = (Inr [Str ''Record growth'', Str ''Shares surge'', Str ''Analysts upgrade'']), info = Inl (Exception ''404'')\<rparr> ''AAA'') =
      Inr \<lparr>ticker = ''AAA'', final_score = 80, details = ''Not enough data for MA Stack; RVOL # > 1.5: +20; Price within 5% of 52w High (#): +20; ATR (#) < 5% Price (#): +10; Positive News Sentiment: +30; No Analyst Data''\<rparr>"
    by (subst analyze_stock_passed [where hist = "(replicate 14 \<lparr>close = Fin 10, high = Fin 10, low = Fin 10, volume = 1000\<rparr> @ [\<lparr>close = Fin 10, high = Fin 10, low = Fin 10, volume = 2000\<rparr>])"])
       (simp_all add: score_factors_def f1 f2 f3 f4 f5 f6)
  have a75: "\<exists>r. snd (analyze_stock \<lparr>fmt2f = (\<lambda>x. ''#''), fmtstr = (\<lambda>x. ''#'')\<rparr> \<lparr>history = Inr (replicate 14 \<lparr>close = Fin 10, high = Fin 10, low = Fin 10, volume = 1000\<rparr> @ [\<lparr>close = Fin 10, high = Fin 10, low = Fin 10, volume = 2000\<rparr>]), news = (Inr [Str ''Record growth'']), info = (Inr \<lparr>targetMeanPrice = Target (Fin 13), recommendationKey = Str ''Buy''\<rparr>)\<rparr> ''BBB'') = Inr r \<and> final_score r = 75"
    by (subst analyze_stock_passed [where hist = "(replicate 14 \<lparr>close = Fin 10, high = Fin 10, low = Fin 10, volume = 1000\<rparr> @ [\<lparr>close = Fin 10, high = Fin 10, low = Fin 10, volume = 2000\<rparr>])"])
       (simp_all add: score_factors_def f1 f2 f3 f4 f5' f6')
  from C1_signal_emitter [of "\<lparr>fmt2f = (\<lambda>x. ''#''), fmtstr = (\<lambda>x. ''#'')\<rparr>" "(\<lambda>t. if t = ''AAA'' then \<lparr>history = Inr (replicate 14 \<lparr>close = Fin 10, high = Fin 10, low = Fin 10, volume = 1000\<rparr> @ [\<lparr>close = Fin 10, high = Fin 10, low = Fin 10, volume = 2000\<rparr>]), news = (Inr [Str ''Record growth'', Str ''Shares surge'', Str ''Analysts upgrade'']), info = Inl (Exception ''404'')\<rparr> else \<lparr>history = Inr (replicate 14 \<lparr>close = Fin 10, high = Fin 10, low = Fin 10, volume = 1000\<rparr> @ [\<lparr>close = Fin 10, high = Fin 10, low = Fin 10, volume = 2000\<rparr>]), news = (Inr [Str ''Record growth'']), info = (Inr \<lparr>targetMeanPrice = Target (Fin 13), recommendationKey = Str ''Buy''\<rparr>)\<rparr>)" "\<lambda>s. True" "(Inr [(''AAA'', [\<lparr>Close = Fin (21 / 2), Volume = Fin 1000000\<rparr>]), (''BBB'', [\<lparr>Close = Fin 20, Volume = Fin 1000000\<rparr>])])" "[''AAA'', ''BBB'']" "[]"]
  have "fst (scan_batch \<lparr>fmt2f = (\<lambda>x. ''#''), fmtstr = (\<lambda>x. ''#'')\<rparr> (\<lambda>t. if t = ''AAA'' then \<lparr>history = Inr (replicate 14 \<lparr>close = Fin 10, high = Fin 10, low = Fin 10, volume = 1000\<rparr> @ [\<lparr>close = Fin 10, high = Fin 10, low = Fin 10, volume = 2000\<rparr>]), news = (Inr [Str ''Record growth'', Str ''Shares surge'', Str ''Analysts upgrade'']), info = Inl (Exception ''404'')\<rparr> else \<lparr>history = Inr (replicate 14 \<lparr>close = Fin 10, high = Fin 10, low = Fin 10, volume = 1000\<rparr> @ [\<lparr>close = Fin 10, high = Fin 10, low = Fin 10, volume = 2000\<rparr>]), news = (Inr [Str ''Record growth'']), info = (Inr \<lparr>targetMeanPrice = Target (Fin 13), recommendationKey = Str ''Buy''\<rparr>)\<rparr>) (\<lambda>s. True) (Inr [(''AAA'', [\<lparr>Close = Fin (21 / 2), Volume = Fin 1000000\<rparr>]), (''BBB'', [\<lparr>Close = Fin 20, Volume = Fin 1000000\<rparr>])]) [''AAA'', ''BBB''] []) =
     [] @ concat (map (\<lambda>(t, last_close).
                      case snd (analyze_stock \<lparr>fmt2f = (\<lambda>x. ''#''), fmtstr = (\<lambda>x. ''#'')\<rparr> ((\<lambda>t. if t = ''AAA'' then \<lparr>history = Inr (replicate 14 \<lparr>close = Fin 10, high = Fin 10, low = Fin 10, volume = 1000\<rparr> @ [\<lparr>close = Fin 10, high = Fin 10, low = Fin 10, volume = 2000\<rparr>]), news = (Inr [Str ''Record growth'', Str ''Shares surge'', Str ''Analysts upgrade'']), info = Inl (Exception ''404'')\<rparr> else \<lparr>history = Inr (replicate 14 \<lparr>close = Fin 10, high = Fin 10, low = Fin 10, volume = 1000\<rparr> @ [\<lparr>close = Fin 10, high = Fin 10, low = Fin 10, volume = 2000\<rparr>]), news = (Inr [Str ''Record growth'']), info = (Inr \<lparr>targetMeanPrice = Target (Fin 13), recommendationKey = Str ''Buy''\<rparr>)\<rparr>) t) t) of
                        Inl e \<Rightarrow> []
                      | Inr r \<Rightarrow> spec_emit t last_close r)
                    (case fast_filter (Inr [(''AAA'', [\<lparr>Close = Fin (21 / 2), Volume = Fin 1000000\<rparr>]), (''BBB'', [\<lparr>Close = Fin 20, Volume = Fin 1000000\<rparr>])]) [''AAA'', ''BBB''] of None \<Rightarrow> [] | Some survivors \<Rightarrow> survivors))"
    by blast
  also have "\<dots> = [\<lparr>sig_ticker = ''AAA'', entry_price = Fin (21 / 2), confidence_score = 80,
       reasons = ''Not enough data for MA Stack; RVOL # > 1.5: +20; Price within 5% of 52w High (#): +20; ATR (#) < 5% Price (#): +10; Positive News Sentiment: +30; No Analyst Data'', status = ''OPEN''\<rparr>]"
    using a80 a75 by (auto simp: ff spec_emit_def)
  finally show ?thesis using ff a80 a75 by simp
qed




text \<open>
  C4. The cleaning of the two sources differs: on the symbols BRK.B, ABC-W, GOOG, AB3
  the fallback path, which has no \<open>isalpha\<close> filter, returns GOOG and AB3, where the
  primary path returns GOOG alone.
\<close>

theorem C4_fallback_keeps_non_alphabetic:
  "get_all_tickers
     \<lparr>primary = Inl (Exception ''timeout''),
      fallback = Inr [SymStr ''BRK.B'', SymStr ''ABC-W'', SymStr ''GOOG'', SymStr ''AB3'']\<rparr>
     = ([Primary, Fallback], [''GOOG'', ''AB3'']) \<and>
   get_all_tickers
     \<lparr>primary = Inr (Rows [Some (SymStr ''BRK.B''), Some (SymStr ''ABC-W''),
                           Some (SymStr ''GOOG''), Some (SymStr ''AB3'')]),
      fallback = Inl (Exception ''timeout'')\<rparr>
     = ([Primary], [''GOOG''])"
proof -
  have a: "isalpha ''GOOG''" by code_simp
  have b: "\<not> isalpha ''AB3''" by code_simp
  show ?thesis
    by (simp add: get_all_tickers_def primary_try_def fallback_try_def symbol_column_def
        no_dot_dash_def replace_dot_def a b)
qed

text \<open>
  C5, as stated, fails: a primary answer with no rows, or with no data, raises nothing,
  yet the \<open>if\<close> of the primary block is false and the fallback is requested.
\<close>

theorem C5_fallback_counterexample:
  "primary_try (Inr (Rows [])) = Inr None \<and>
   get_all_tickers \<lparr>primary = Inr (Rows []), fallback = Inr [SymStr ''GOOG'']\<rparr>
     = ([Primary, Fallback], [''GOOG'']) \<and>
   primary_try (Inr NoData) = Inr None \<and>
   get_all_tickers \<lparr>primary = Inr NoData, fallback = Inr [SymStr ''GOOG'']\<rparr>
     = ([Primary, Fallback], [''GOOG''])"
  by (simp add: get_all_tickers_def primary_try_def fallback_try_def no_dot_dash_def replace_dot_def)

text \<open>
  C5, amended. The fallback is requested exactly when the primary block raises or the
  primary answer has no data or no rows. When the answer has at least one row and the
  block does not raise, the resolver returns the primary tickers and requests the
  primary source only, also when the tickers filter down to the empty list.
\<close>

theorem C5_fallback_amended:
  "(Fallback \<in> set (fst (get_all_tickers w)) \<longleftrightarrow>
      (\<exists>e. primary_try (primary w) = Inl e) \<or> primary w = Inr NoData \<or> primary w = Inr (Rows [])) \<and>
   (\<forall>rows. primary w = Inr (Rows rows) \<and> rows \<noteq> [] \<and> (\<forall>e. primary_try (primary w) \<noteq> Inl e) \<longrightarrow>
      (\<exists>tickers. primary_try (primary w) = Inr (Some tickers) \<and>
                 get_all_tickers w = ([Primary], tickers)))"
proof (intro conjI allI impI)
  show "Fallback \<in> set (fst (get_all_tickers w)) \<longleftrightarrow>
      (\<exists>e. primary_try (primary w) = Inl e) \<or> primary w = Inr NoData \<or> primary w = Inr (Rows [])"
  proof (cases "primary_try (primary w)")
    case (Inl e)
    then show ?thesis
      by (auto simp: get_all_tickers_sources primary_try_def)
  next
    case (Inr x)
    show ?thesis
    proof (cases x)
      case None
      with Inr primary_try_None [of "primary w"] show ?thesis
        by (simp add: get_all_tickers_sources)
    next
      case (Some tickers)
      with Inr primary_try_None [of "primary w"] show ?thesis
        by (simp add: get_all_tickers_sources)
    qed
  qed
next
  fix rows
  assume a: "primary w = Inr (Rows rows) \<and> rows \<noteq> [] \<and> (\<forall>e. primary_try (primary w) \<noteq> Inl e)"
  then obtain x where x: "primary_try (primary w) = Inr x"
    by (cases "primary_try (primary w)") auto
  from a primary_try_None [of "primary w"] x obtain tickers where "x = Some tickers"
    by (cases x) auto
  with x show "\<exists>tickers. primary_try (primary w) = Inr (Some tickers) \<and>
                 get_all_tickers w = ([Primary], tickers)"
    by (simp add: get_all_tickers_def)
qed

text \<open>C5, amended, on a primary answer of two rows that both filter away.\<close>

theorem C5_fallback_amended_witness:
  "primary \<lparr>primary = Inr (Rows [Some (SymStr ''BRK.B''), Some (SymStr ''AB3'')]),
            fallback = Inr [SymStr ''GOOG'']\<rparr>
     = Inr (Rows [Some (SymStr ''BRK.B''), Some (SymStr ''AB3'')]) \<and>
   [Some (SymStr ''BRK.B''), Some (SymStr ''AB3'')] \<noteq> [] \<and>
   primary_try (Inr (Rows [Some (SymStr ''BRK.B''), Some (SymStr ''AB3'')])) = Inr (Some []) \<and>
   get_all_tickers \<lparr>primary = Inr (Rows [Some (SymStr ''BRK.B''), Some (SymStr ''AB3'')]),
                    fallback = Inr [SymStr ''GOOG'']\<rparr> = ([Primary], [])"
proof -
  have b: "\<not> isalpha ''AB3''" by code_simp
  have p: "primary_try (Inr (Rows [Some (SymStr ''BRK.B''), Some (SymStr ''AB3'')])) = Inr (Some [])"
    by (simp add: primary_try_def symbol_column_def no_dot_dash_def b)
  from C5_fallback_amended [of "\<lparr>primary = Inr (Rows [Some (SymStr ''BRK.B''), Some (SymStr ''AB3'')]),
            fallback = Inr [SymStr ''GOOG'']\<rparr>"] p
  show ?thesis by simp
qed

end
